theory Spec2Isabelle
  imports Complex_Main "HOL-Library.Word"
begin

section \<open>LuminOx O2 sensor driver: data model (luminox.h)\<close>

type_synonym u8 = "8 word"
type_synonym u16 = "16 word"

text \<open>Size of the uart receive buffer in bytes.\<close>

definition UART_RX_BUF_SIZE :: nat where
  "UART_RX_BUF_SIZE = 128"

text \<open>ASCII codes for commands and keywords.\<close>

definition MODE_OUTPUT :: u8 where "MODE_OUTPUT = 0x4D"
definition PPO2 :: u8 where "PPO2 = 0x4F"
definition O2 :: u8 where "O2 = 0x25"
definition TEMPERATURE :: u8 where "TEMPERATURE = 0x54"
definition BAROMETRIC_PRESSURE :: u8 where "BAROMETRIC_PRESSURE = 0x50"
definition SENSOR_STATUS :: u8 where "SENSOR_STATUS = 0x65"
definition SENSOR_INFORMATION :: u8 where "SENSOR_INFORMATION = 0x23"
definition SEPARATOR :: u8 where "SEPARATOR = 0x20"
definition TERMINATOR :: u8 where "TERMINATOR = 0x0A"
definition ERROR_RESPONSE :: u8 where "ERROR_RESPONSE = 0x45"

text \<open>
  The C enums \<open>luminox_mode_t\<close> and \<open>luminox_sensor_info_t\<close> are integers: a caller
  can pass a value that is none of the enumerators, and both encoders have a
  \<open>default\<close> branch for it. They are modelled as \<open>int\<close> with the enumerators as
  constants.
\<close>

type_synonym luminox_mode_t = int

definition LUMINOX_MODE_STREAMING :: luminox_mode_t where "LUMINOX_MODE_STREAMING = 0"
definition LUMINOX_MODE_POLLING :: luminox_mode_t where "LUMINOX_MODE_POLLING = 1"
definition LUMINOX_MODE_OFF :: luminox_mode_t where "LUMINOX_MODE_OFF = 2"
definition LUMINOX_MODE_DEFAULT :: luminox_mode_t where "LUMINOX_MODE_DEFAULT = LUMINOX_MODE_OFF"

type_synonym luminox_sensor_info_t = int

definition LUMINOX_INFO_DATE_OF_MFG :: luminox_sensor_info_t where "LUMINOX_INFO_DATE_OF_MFG = 0"
definition LUMINOX_INFO_SERIAL_NUM :: luminox_sensor_info_t where "LUMINOX_INFO_SERIAL_NUM = 1"
definition LUMINOX_INFO_SW_VER :: luminox_sensor_info_t where "LUMINOX_INFO_SW_VER = 2"

text \<open>The return codes; the driver only ever produces the enumerators.\<close>

datatype luminox_retcode_t =
    LUMINOX_ERR_RX_OVERFLOW
  | LUMINOX_ERR_INVALID_CMD
  | LUMINOX_ERR_INVALID_FRAME
  | LUMINOX_ERR_INVALID_ARG
  | LUMINOX_ERR_INVALID_MODE
  | LUMINOX_ERR_INVALID_INFO
  | LUMINOX_ERR_TIMEOUT
  | LUMINOX_ERROR
  | LUMINOX_SUCCESS

text \<open>
  The handler struct. The type \<open>'f\<close> stands for C's \<open>float\<close>: the driver only stores
  what \<open>atof\<close> returns and the constant 0, so no floating-point arithmetic is
  modelled. The function pointer \<open>luminox_tx\<close> of the struct is passed to the
  operations as an argument instead of being a field.
\<close>

record 'f luminox_handler_t =
  current_mode :: luminox_mode_t
  current_ppO2 :: 'f
  current_O2 :: 'f
  current_temp :: 'f
  current_barometric_pressure :: 'f
  luminox_data :: "u8 list"
  err_code :: luminox_retcode_t

text \<open>
  An access outside \<open>luminox_data[UART_RX_BUF_SIZE]\<close> is undefined behaviour in C.
  The model makes it a result of its own.
\<close>

datatype fault = OutOfBounds

text \<open>\<open>luminox_data[i]\<close>, read.\<close>

definition rd :: "u8 list \<Rightarrow> nat \<Rightarrow> u8 option" where
  "rd buf i = (if i < UART_RX_BUF_SIZE \<and> i < length buf then Some (buf ! i) else None)"

text \<open>\<open>memcpy(dst, &luminox_data[i], n)\<close>: the \<open>n\<close> bytes that are copied.\<close>

definition memcpy_rd :: "u8 list \<Rightarrow> nat \<Rightarrow> nat \<Rightarrow> u8 list option" where
  "memcpy_rd buf i n =
     (if i + n \<le> UART_RX_BUF_SIZE \<and> i + n \<le> length buf then Some (take n (drop i buf)) else None)"

section \<open>The error classifier and the decoder (luminox.c)\<close>

definition luminox_error_handler :: "'f luminox_handler_t \<Rightarrow> fault + luminox_retcode_t" where
  "luminox_error_handler h =
     (case rd (luminox_data h) 3 of
        None \<Rightarrow> Inl OutOfBounds
      | Some c \<Rightarrow>
          if c = 0x30 then Inr LUMINOX_ERR_RX_OVERFLOW
          else if c = 0x31 then Inr LUMINOX_ERR_INVALID_CMD
          else if c = 0x32 then Inr LUMINOX_ERR_INVALID_FRAME
          else if c = 0x33 then Inr LUMINOX_ERR_INVALID_ARG
          else Inr LUMINOX_ERROR)"

text \<open>The inner switch of the \<open>MODE_OUTPUT\<close> case, on \<open>luminox_data[i+3]\<close>.\<close>

definition mode_echo :: "u8 \<Rightarrow> 'f luminox_handler_t \<Rightarrow> 'f luminox_handler_t" where
  "mode_echo m h =
     (if m = 0x30 then h\<lparr>current_mode := LUMINOX_MODE_STREAMING\<rparr>
      else if m = 0x31 then h\<lparr>current_mode := LUMINOX_MODE_POLLING\<rparr>
      else if m = 0x32 then h\<lparr>current_mode := LUMINOX_MODE_OFF\<rparr>
      else h)"

text \<open>
  The while loop of \<open>luminox_process_response\<close>, from index \<open>i\<close> (a \<open>uint16_t\<close>) on.
  \<open>Inr\<close> is the state at the label \<open>EndWhile\<close>. The cases \<open>SEPARATOR\<close>,
  \<open>SENSOR_STATUS\<close>, \<open>SENSOR_INFORMATION\<close> and \<open>default\<close> of the switch only break; they
  are the last branch.

  The conversion \<open>atof\<close> of the C library is a parameter: a function of the bytes
  it finds from the pointer on. The local arrays \<open>ppo2_data\<close>, \<open>o2_data\<close>, \<open>temp_data\<close>
  and \<open>barometric_data\<close> get no terminating zero, so \<open>atof\<close> is handed the copied bytes
  followed by whatever lies behind the array on the stack. These bytes are the
  parameter \<open>behind\<close>: \<open>behind j\<close> is what lies behind the array at the call for the field
  whose data starts at index \<open>j\<close> of the buffer (the index grows, so every call of one
  decode has a \<open>j\<close> of its own). They are not under the control of the driver.
\<close>

function process_loop ::
  "(u8 list \<Rightarrow> 'f) \<Rightarrow> (u16 \<Rightarrow> u8 list) \<Rightarrow> 'f luminox_handler_t \<Rightarrow> u16
     \<Rightarrow> fault + 'f luminox_handler_t" where
  "process_loop atof behind h i =
     (case rd (luminox_data h) (unat i) of
        None \<Rightarrow> Inl OutOfBounds
      | Some c \<Rightarrow>
          if c = TERMINATOR then Inr h
          else if c = ERROR_RESPONSE then
            (case luminox_error_handler h of
               Inl f \<Rightarrow> Inl f
             | Inr e \<Rightarrow> Inr (h\<lparr>err_code := e\<rparr>))
          else if c = MODE_OUTPUT then
            (case rd (luminox_data h) (unat i + 3) of
               None \<Rightarrow> Inl OutOfBounds
             | Some m \<Rightarrow> Inr (mode_echo m h))
          else if c = PPO2 then
            (case memcpy_rd (luminox_data h) (unat (i + 2)) 6 of
               None \<Rightarrow> Inl OutOfBounds
             | Some ppo2_data \<Rightarrow>
                 process_loop atof behind
                   (h\<lparr>current_ppO2 := atof (ppo2_data @ behind (i + 2))\<rparr>) (i + 2 + 5 + 1))
          else if c = O2 then
            (case memcpy_rd (luminox_data h) (unat (i + 2)) 6 of
               None \<Rightarrow> Inl OutOfBounds
             | Some o2_data \<Rightarrow>
                 process_loop atof behind
                   (h\<lparr>current_O2 := atof (o2_data @ behind (i + 2))\<rparr>) (i + 2 + 5 + 1))
          else if c = TEMPERATURE then
            (case memcpy_rd (luminox_data h) (unat (i + 2)) 5 of
               None \<Rightarrow> Inl OutOfBounds
             | Some temp_data \<Rightarrow>
                 process_loop atof behind
                   (h\<lparr>current_temp := atof (temp_data @ behind (i + 2))\<rparr>) (i + 2 + 4 + 1))
          else if c = BAROMETRIC_PRESSURE then
            (case memcpy_rd (luminox_data h) (unat (i + 2)) 4 of
               None \<Rightarrow> Inl OutOfBounds
             | Some barometric_data \<Rightarrow>
                 process_loop atof behind
                   (h\<lparr>current_barometric_pressure := atof (barometric_data @ behind (i + 2))\<rparr>)
                   (i + 2 + 3 + 1))
          else process_loop atof behind h (i + 1))"
  by pat_completeness auto

termination process_loop
proof (relation "measure (\<lambda>(atof, behind, h, i). UART_RX_BUF_SIZE - unat i)", goal_cases)
  case 1
  show ?case by simp
next
  case (2 atof behind h i c d)
  from 2(1) have "unat i < 128"
    by (simp add: rd_def UART_RX_BUF_SIZE_def split: if_splits)
  then have "unat (i + 2 + 5 + 1) = unat i + 8"
    by (simp add: unat_word_ariths)
  with \<open>unat i < 128\<close> show ?case
    by (simp only: in_measure prod.case UART_RX_BUF_SIZE_def)
next
  case (3 atof behind h i c d)
  from 3(1) have "unat i < 128"
    by (simp add: rd_def UART_RX_BUF_SIZE_def split: if_splits)
  then have "unat (i + 2 + 5 + 1) = unat i + 8"
    by (simp add: unat_word_ariths)
  with \<open>unat i < 128\<close> show ?case
    by (simp only: in_measure prod.case UART_RX_BUF_SIZE_def)
next
  case (4 atof behind h i c d)
  from 4(1) have "unat i < 128"
    by (simp add: rd_def UART_RX_BUF_SIZE_def split: if_splits)
  then have "unat (i + 2 + 4 + 1) = unat i + 7"
    by (simp add: unat_word_ariths)
  with \<open>unat i < 128\<close> show ?case
    by (simp only: in_measure prod.case UART_RX_BUF_SIZE_def)
next
  case (5 atof behind h i c d)
  from 5(1) have "unat i < 128"
    by (simp add: rd_def UART_RX_BUF_SIZE_def split: if_splits)
  then have "unat (i + 2 + 3 + 1) = unat i + 6"
    by (simp add: unat_word_ariths)
  with \<open>unat i < 128\<close> show ?case
    by (simp only: in_measure prod.case UART_RX_BUF_SIZE_def)
next
  case (6 atof behind h i c)
  from 6(1) have "unat i < 128"
    by (simp add: rd_def UART_RX_BUF_SIZE_def split: if_splits)
  then have "unat (i + 1) = unat i + 1"
    by (simp add: unat_word_ariths)
  with \<open>unat i < 128\<close> show ?case
    by (simp only: in_measure prod.case UART_RX_BUF_SIZE_def)
qed

declare process_loop.simps [simp del]

text \<open>
  \<open>luminox_process_response\<close>: the loop from index 0, then the assignment after the
  label \<open>EndWhile\<close>, which every exit of the loop reaches.
\<close>

definition luminox_process_response ::
  "(u8 list \<Rightarrow> 'f) \<Rightarrow> (u16 \<Rightarrow> u8 list) \<Rightarrow> 'f luminox_handler_t
     \<Rightarrow> fault + 'f luminox_handler_t" where
  "luminox_process_response atof behind h =
     (case process_loop atof behind h 0 of
        Inl f \<Rightarrow> Inl f
      | Inr h' \<Rightarrow> Inr (h'\<lparr>err_code := LUMINOX_SUCCESS\<rparr>))"

text \<open>
  \<open>luminox_update_data\<close>: \<open>memcpy(luminox_data, p_response, size)\<close>, called by the
  application's receive handler once a complete response is there.
\<close>

definition luminox_update_data ::
  "u8 list \<Rightarrow> u8 \<Rightarrow> 'f luminox_handler_t \<Rightarrow> fault + 'f luminox_handler_t" where
  "luminox_update_data p_response n h =
     (if unat n \<le> UART_RX_BUF_SIZE \<and> unat n \<le> length (luminox_data h)
         \<and> unat n \<le> length p_response
      then Inr (h\<lparr>luminox_data := take (unat n) p_response @ drop (unat n) (luminox_data h)\<rparr>)
      else Inl OutOfBounds)"

section \<open>The transport callback and the request operations\<close>

text \<open>
  \<open>luminox_tx\<close> is code of the application. It is given the request and its size,
  and it may change the handler (the receive handler stores the response with
  \<open>luminox_update_data\<close> while the callback waits) and the rest of the
  application's state, of type \<open>'w\<close>. The field \<open>tx_calls\<close> is not in the C code: it
  records every call of the callback, for the claims about what is transmitted.
\<close>

type_synonym ('f, 'w) luminox_tx_t =
  "u8 list \<Rightarrow> u8 \<Rightarrow> 'f luminox_handler_t \<times> 'w \<Rightarrow> 'f luminox_handler_t \<times> 'w"

record ('f, 'w) luminox_state =
  handler :: "'f luminox_handler_t"
  world :: 'w
  tx_calls :: "(u8 list \<times> u8) list"

definition call_luminox_tx ::
  "('f, 'w) luminox_tx_t \<Rightarrow> u8 list \<Rightarrow> u8 \<Rightarrow> ('f, 'w) luminox_state \<Rightarrow> ('f, 'w) luminox_state" where
  "call_luminox_tx tx request n s =
     (case tx request n (handler s, world s) of
        (h', w') \<Rightarrow> \<lparr>handler = h', world = w', tx_calls = tx_calls s @ [(request, n)]\<rparr>)"

text \<open>
  The three statements every request ends with: transmit, decode, return
  \<open>luminox_handler->err_code\<close>.
\<close>

definition transmit_and_process ::
  "('f, 'w) luminox_tx_t \<Rightarrow> (u8 list \<Rightarrow> 'f) \<Rightarrow> (u16 \<Rightarrow> u8 list) \<Rightarrow> u8 list \<Rightarrow> u8 \<Rightarrow> ('f, 'w) luminox_state
     \<Rightarrow> (fault + luminox_retcode_t) \<times> ('f, 'w) luminox_state" where
  "transmit_and_process tx atof behind request n s =
     (let s1 = call_luminox_tx tx request n s in
      case luminox_process_response atof behind (handler s1) of
        Inl f \<Rightarrow> (Inl f, s1)
      | Inr h' \<Rightarrow> (Inr (err_code h'), s1\<lparr>handler := h'\<rparr>))"

text \<open>The arrays \<open>"M x\r\n"\<close> and \<open>"# x\r\n"\<close>, with the terminating zero of the C string.\<close>

definition mode_msg :: "u8 list" where
  "mode_msg = [0x4D, 0x20, 0x78, 0x0D, 0x0A, 0x00]"

definition info_req :: "u8 list" where
  "info_req = [0x23, 0x20, 0x78, 0x0D, 0x0A, 0x00]"

definition luminox_set_ouput_mode ::
  "('f, 'w) luminox_tx_t \<Rightarrow> (u8 list \<Rightarrow> 'f) \<Rightarrow> (u16 \<Rightarrow> u8 list) \<Rightarrow> luminox_mode_t \<Rightarrow> ('f, 'w) luminox_state
     \<Rightarrow> (fault + luminox_retcode_t) \<times> ('f, 'w) luminox_state" where
  "luminox_set_ouput_mode tx atof behind mode s =
     (if mode = LUMINOX_MODE_STREAMING then transmit_and_process tx atof behind (mode_msg[2 := 0x30]) 5 s
      else if mode = LUMINOX_MODE_POLLING then transmit_and_process tx atof behind (mode_msg[2 := 0x31]) 5 s
      else if mode = LUMINOX_MODE_OFF then transmit_and_process tx atof behind (mode_msg[2 := 0x32]) 5 s
      else (Inr LUMINOX_ERR_INVALID_MODE, s))"

definition luminox_request_ppO2 ::
  "('f, 'w) luminox_tx_t \<Rightarrow> (u8 list \<Rightarrow> 'f) \<Rightarrow> (u16 \<Rightarrow> u8 list) \<Rightarrow> ('f, 'w) luminox_state
     \<Rightarrow> (fault + luminox_retcode_t) \<times> ('f, 'w) luminox_state" where
  "luminox_request_ppO2 tx atof behind s = transmit_and_process tx atof behind [0x4F, 0x0D, 0x0A, 0x00] 3 s"

definition luminox_request_O2 ::
  "('f, 'w) luminox_tx_t \<Rightarrow> (u8 list \<Rightarrow> 'f) \<Rightarrow> (u16 \<Rightarrow> u8 list) \<Rightarrow> ('f, 'w) luminox_state
     \<Rightarrow> (fault + luminox_retcode_t) \<times> ('f, 'w) luminox_state" where
  "luminox_request_O2 tx atof behind s = transmit_and_process tx atof behind [0x25, 0x0D, 0x0A, 0x00] 3 s"

definition luminox_request_temp ::
  "('f, 'w) luminox_tx_t \<Rightarrow> (u8 list \<Rightarrow> 'f) \<Rightarrow> (u16 \<Rightarrow> u8 list) \<Rightarrow> ('f, 'w) luminox_state
     \<Rightarrow> (fault + luminox_retcode_t) \<times> ('f, 'w) luminox_state" where
  "luminox_request_temp tx atof behind s = transmit_and_process tx atof behind [0x54, 0x0D, 0x0A, 0x00] 3 s"

definition luminox_request_barometric_pressure ::
  "('f, 'w) luminox_tx_t \<Rightarrow> (u8 list \<Rightarrow> 'f) \<Rightarrow> (u16 \<Rightarrow> u8 list) \<Rightarrow> ('f, 'w) luminox_state
     \<Rightarrow> (fault + luminox_retcode_t) \<times> ('f, 'w) luminox_state" where
  "luminox_request_barometric_pressure tx atof behind s =
     transmit_and_process tx atof behind [0x50, 0x0D, 0x0A, 0x00] 3 s"

definition luminox_request_sensor_status ::
  "('f, 'w) luminox_tx_t \<Rightarrow> (u8 list \<Rightarrow> 'f) \<Rightarrow> (u16 \<Rightarrow> u8 list) \<Rightarrow> ('f, 'w) luminox_state
     \<Rightarrow> (fault + luminox_retcode_t) \<times> ('f, 'w) luminox_state" where
  "luminox_request_sensor_status tx atof behind s =
     transmit_and_process tx atof behind [0x65, 0x0D, 0x0A, 0x00] 3 s"

definition luminox_request_all ::
  "('f, 'w) luminox_tx_t \<Rightarrow> (u8 list \<Rightarrow> 'f) \<Rightarrow> (u16 \<Rightarrow> u8 list) \<Rightarrow> ('f, 'w) luminox_state
     \<Rightarrow> (fault + luminox_retcode_t) \<times> ('f, 'w) luminox_state" where
  "luminox_request_all tx atof behind s = transmit_and_process tx atof behind [0x41, 0x0D, 0x0A, 0x00] 3 s"

definition luminox_request_sensor_info ::
  "('f, 'w) luminox_tx_t \<Rightarrow> (u8 list \<Rightarrow> 'f) \<Rightarrow> (u16 \<Rightarrow> u8 list) \<Rightarrow> luminox_sensor_info_t \<Rightarrow> ('f, 'w) luminox_state
     \<Rightarrow> (fault + luminox_retcode_t) \<times> ('f, 'w) luminox_state" where
  "luminox_request_sensor_info tx atof behind info s =
     (if info = LUMINOX_INFO_DATE_OF_MFG then transmit_and_process tx atof behind (info_req[2 := 0x30]) 5 s
      else if info = LUMINOX_INFO_SERIAL_NUM then transmit_and_process tx atof behind (info_req[2 := 0x31]) 5 s
      else if info = LUMINOX_INFO_SW_VER then transmit_and_process tx atof behind (info_req[2 := 0x32]) 5 s
      else (Inr LUMINOX_ERR_INVALID_INFO, s))"

section \<open>Initialisation\<close>



section \<open>Auxiliary notions for the properties\<close>

text \<open>
  The bytes each call of the callback was asked to transmit: the first \<open>size\<close> bytes
  of the request array.
\<close>

definition transmitted :: "('f, 'w) luminox_state \<Rightarrow> u8 list list" where
  "transmitted s = map (\<lambda>(request, n). take (unat n) request) (tx_calls s)"

text \<open>
  Two decoder runs over the same buffer, from \<open>h\<close> to \<open>h'\<close> and from \<open>k\<close> to \<open>k'\<close>:
  a field either ends with the same value in both, or was left alone in both.
\<close>

definition agree ::
  "('f luminox_handler_t \<Rightarrow> 'a) \<Rightarrow> 'f luminox_handler_t \<Rightarrow> 'f luminox_handler_t
     \<Rightarrow> 'f luminox_handler_t \<Rightarrow> 'f luminox_handler_t \<Rightarrow> bool" where
  "agree fld h h' k k' = (fld h' = fld k' \<or> (fld h' = fld h \<and> fld k' = fld k))"

definition rerun ::
  "'f luminox_handler_t \<Rightarrow> 'f luminox_handler_t \<Rightarrow> 'f luminox_handler_t
     \<Rightarrow> 'f luminox_handler_t \<Rightarrow> bool" where
  "rerun h h' k k' =
     (agree current_mode h h' k k' \<and> agree current_ppO2 h h' k k' \<and> agree current_O2 h h' k k'
      \<and> agree current_temp h h' k k' \<and> agree current_barometric_pressure h h' k k')"

text \<open>
  Not part of the C code: the frames the decoder reads without leaving them.
  \<open>scan_fits fr i\<close> says that from index \<open>i\<close> on every byte the scan of the decoder
  reads lies inside \<open>fr\<close>: a tag \<open>O\<close>, \<open>%\<close>, \<open>T\<close> or \<open>P\<close> is followed by its whole field and
  by the byte the scan resumes at, an \<open>M\<close> by a byte three positions on, an \<open>E\<close> is in a
  frame with a fourth byte, and the scan arrives at a line feed, an \<open>E\<close> or an \<open>M\<close>.
\<close>

function scan_fits :: "u8 list \<Rightarrow> nat \<Rightarrow> bool" where
  "scan_fits fr i =
     (if length fr \<le> i then False
      else if fr ! i = TERMINATOR then True
      else if fr ! i = ERROR_RESPONSE then 3 < length fr
      else if fr ! i = MODE_OUTPUT then i + 3 < length fr
      else if fr ! i = PPO2 then scan_fits fr (i + 8)
      else if fr ! i = O2 then scan_fits fr (i + 8)
      else if fr ! i = TEMPERATURE then scan_fits fr (i + 7)
      else if fr ! i = BAROMETRIC_PRESSURE then scan_fits fr (i + 6)
      else scan_fits fr (i + 1))"
  by pat_completeness auto

termination scan_fits
  by (relation "measure (\<lambda>(fr, i). length fr - i)") auto

declare scan_fits.simps [simp del]

section \<open>Example states\<close>

text \<open>
  A receive buffer that holds a response followed by zero bytes, as it is after
  \<open>luminox_init\<close> and one \<open>luminox_update_data\<close>; a handler around it; a stand-in for
  \<open>atof\<close> that reads a sign, decimal digits, a point and decimal digits, and stops at
  the first other byte; three stacks; a callback that plays the sensor (it answers a
  mode request with the mode echo \<open>"M 0d\r\n"\<close> and every other request with
  \<open>"# 12345\r\n"\<close>) and one that stores no reply. They are used for concrete runs only.
\<close>

definition response_buffer :: "u8 list \<Rightarrow> u8 list" where
  "response_buffer frame = frame @ replicate (UART_RX_BUF_SIZE - length frame) 0"

definition example_handler :: "u8 list \<Rightarrow> rat luminox_handler_t" where
  "example_handler frame =
     \<lparr>current_mode = LUMINOX_MODE_OFF, current_ppO2 = 0, current_O2 = 0, current_temp = 0,
      current_barometric_pressure = 0, luminox_data = response_buffer frame,
      err_code = LUMINOX_ERR_TIMEOUT\<rparr>"

fun fraction_digits :: "rat \<Rightarrow> rat \<Rightarrow> u8 list \<Rightarrow> rat" where
  "fraction_digits acc w [] = acc"
| "fraction_digits acc w (c # cs) =
     (if 0x30 \<le> c \<and> c \<le> 0x39
      then fraction_digits (acc + w * of_int (uint c - 48)) (w / 10) cs
      else acc)"

fun leading_decimal :: "rat \<Rightarrow> u8 list \<Rightarrow> rat" where
  "leading_decimal acc [] = acc"
| "leading_decimal acc (c # cs) =
     (if 0x30 \<le> c \<and> c \<le> 0x39 then leading_decimal (10 * acc + of_int (uint c - 48)) cs
      else if c = 0x2E then fraction_digits acc (1 / 10) cs
      else acc)"

definition example_atof :: "u8 list \<Rightarrow> rat" where
  "example_atof bs =
     (if take 1 bs = [0x2D] then - leading_decimal 0 (drop 1 bs)
      else if take 1 bs = [0x2B] then leading_decimal 0 (drop 1 bs)
      else leading_decimal 0 bs)"

text \<open>A zero byte lies behind every local array: the conversion stops at the array's end.\<close>

definition quiet_stack :: "u16 \<Rightarrow> u8 list" where
  "quiet_stack j = [0x00]"

text \<open>The digit \<open>7\<close> lies behind every local array.\<close>

definition digit_behind :: "u16 \<Rightarrow> u8 list" where
  "digit_behind j = [0x37, 0x00]"

text \<open>
  The six bytes \<open>020.65\<close>, which a decode of the response to the request for all
  readings has put into \<open>o2_data\<close>, lie behind \<open>temp_data\<close> (the field that starts at
  index 11 of that response); a zero byte lies behind the other arrays.
\<close>

definition o2_data_behind_temp :: "u16 \<Rightarrow> u8 list" where
  "o2_data_behind_temp j =
     (if j = 11 then [0x30, 0x32, 0x30, 0x2E, 0x36, 0x35, 0x00] else [0x00])"

definition example_tx :: "(rat, unit) luminox_tx_t" where
  "example_tx request n hw =
     (case hw of (h, w) \<Rightarrow>
        (h\<lparr>luminox_data := response_buffer
             (if take 1 request = [MODE_OUTPUT] then [0x4D, 0x20, 0x30, request ! 2, 0x0D, 0x0A]
              else [0x23, 0x20, 0x31, 0x32, 0x33, 0x34, 0x35, 0x0D, 0x0A])\<rparr>, w))"


definition example_state :: "(rat, unit) luminox_state" where
  "example_state = \<lparr>handler = example_handler [], world = (), tx_calls = []\<rparr>"


text \<open>
  The response to the request for all readings,
  \<open>"O 0209.1 T +23.4 P 1013 % 020.65 e 0000\r\n"\<close>, used in concrete runs of the decoder.
\<close>

definition all_response :: "u8 list" where
  "all_response =
     [0x4F, 0x20, 0x30, 0x32, 0x30, 0x39, 0x2E, 0x31, 0x20,
      0x54, 0x20, 0x2B, 0x32, 0x33, 0x2E, 0x34, 0x20,
      0x50, 0x20, 0x31, 0x30, 0x31, 0x33, 0x20,
      0x25, 0x20, 0x30, 0x32, 0x30, 0x2E, 0x36, 0x35, 0x20,
      0x65, 0x20, 0x30, 0x30, 0x30, 0x30, 0x0D, 0x0A]"

section \<open>Facts about the constants and the buffer\<close>

lemmas tag_defs =
  MODE_OUTPUT_def PPO2_def O2_def TEMPERATURE_def BAROMETRIC_PRESSURE_def
  SENSOR_STATUS_def SENSOR_INFORMATION_def SEPARATOR_def TERMINATOR_def ERROR_RESPONSE_def

lemmas mode_defs =
  LUMINOX_MODE_STREAMING_def LUMINOX_MODE_POLLING_def LUMINOX_MODE_OFF_def
  LUMINOX_MODE_DEFAULT_def

lemmas info_defs =
  LUMINOX_INFO_DATE_OF_MFG_def LUMINOX_INFO_SERIAL_NUM_def LUMINOX_INFO_SW_VER_def

lemmas example_defs =
  example_handler_def response_buffer_def example_atof_def UART_RX_BUF_SIZE_def

text \<open>Storing a response in the zeroed buffer gives the buffer of the examples.\<close>

lemma update_data_zeroed_buffer:
  assumes "length frame \<le> UART_RX_BUF_SIZE"
  shows "luminox_update_data frame (of_nat (length frame))
           (h\<lparr>luminox_data := replicate UART_RX_BUF_SIZE 0\<rparr>)
         = Inr (h\<lparr>luminox_data := response_buffer frame\<rparr>)"
proof -
  from assms have "unat (of_nat (length frame) :: u8) = length frame"
    by (simp add: unat_of_nat UART_RX_BUF_SIZE_def)
  with assms show ?thesis
    by (simp add: luminox_update_data_def response_buffer_def)
qed

lemma process_loop_data:
  "process_loop atof behind h i = Inr h' \<Longrightarrow> luminox_data h' = luminox_data h"
proof (induction atof behind h i arbitrary: h' rule: process_loop.induct)
  case (1 atof behind h i)
  from "1.prems" show ?case
    apply (subst (asm) process_loop.simps)
    apply (auto split: option.splits if_splits sum.splits simp: mode_echo_def dest: "1.IH")
    done
qed

section \<open>Error frames\<close>

lemma error_frame_decoded:
  assumes "length (luminox_data h) = UART_RX_BUF_SIZE"
    and "luminox_data h ! 0 = ERROR_RESPONSE"
  shows "luminox_process_response atof behind h = Inr (h\<lparr>err_code := LUMINOX_SUCCESS\<rparr>)"
proof -
  have r0: "rd (luminox_data h) 0 = Some ERROR_RESPONSE"
    using assms by (simp add: rd_def UART_RX_BUF_SIZE_def)
  have r3: "rd (luminox_data h) 3 = Some (luminox_data h ! 3)"
    using assms(1) by (simp add: rd_def UART_RX_BUF_SIZE_def)
  have "\<exists>e. luminox_error_handler h = Inr e"
    by (simp add: luminox_error_handler_def r3)
  then obtain e where e: "luminox_error_handler h = Inr e" ..
  have "process_loop atof behind h 0 = Inr (h\<lparr>err_code := e\<rparr>)"
    by (subst process_loop.simps) (simp add: r0 e tag_defs)
  then show ?thesis
    by (simp add: luminox_process_response_def)
qed

text \<open>
  C4. Whenever \<open>luminox_process_response\<close> completes, \<open>err_code\<close> is
  \<open>LUMINOX_SUCCESS\<close>, whatever the buffer holds: the assignment after \<open>EndWhile\<close>
  is on every path, also on the one that leaves the loop at an error frame, so no
  device-fault code is left in \<open>err_code\<close>.
\<close>

theorem process_response_always_success:
  "luminox_process_response atof behind h = Inr h' \<Longrightarrow> err_code h' = LUMINOX_SUCCESS"
  by (auto simp: luminox_process_response_def split: sum.splits)

text \<open>The error frame \<open>"E 01\r\n"\<close> (invalid command) is decoded, and the result is Success.\<close>

theorem process_response_always_success_witness:
  "luminox_process_response example_atof quiet_stack (example_handler [0x45, 0x20, 0x30, 0x31, 0x0D, 0x0A])
     = Inr ((example_handler [0x45, 0x20, 0x30, 0x31, 0x0D, 0x0A])\<lparr>err_code := LUMINOX_SUCCESS\<rparr>)
   \<and> err_code ((example_handler [0x45, 0x20, 0x30, 0x31, 0x0D, 0x0A])\<lparr>err_code := LUMINOX_SUCCESS\<rparr>)
       = LUMINOX_SUCCESS"
proof -
  have run: "luminox_process_response example_atof quiet_stack
               (example_handler [0x45, 0x20, 0x30, 0x31, 0x0D, 0x0A])
             = Inr ((example_handler [0x45, 0x20, 0x30, 0x31, 0x0D, 0x0A])
                      \<lparr>err_code := LUMINOX_SUCCESS\<rparr>)"
    by (rule error_frame_decoded) (simp_all add: example_defs tag_defs)
  from run process_response_always_success [OF run] show ?thesis by simp
qed

text \<open>
  C5. For a buffer that begins with the error tag \<open>E\<close>, \<open>luminox_process_response\<close>
  completes and leaves \<open>current_ppO2\<close>, \<open>current_O2\<close>, \<open>current_temp\<close>,
  \<open>current_barometric_pressure\<close> and \<open>current_mode\<close> as they were: the loop is left
  at the tag, and nothing after it is interpreted.
\<close>

theorem error_frame_keeps_measurements:
  assumes "length (luminox_data h) = UART_RX_BUF_SIZE"
    and "luminox_data h ! 0 = ERROR_RESPONSE"
  shows "\<exists>h'. luminox_process_response atof behind h = Inr h'
           \<and> current_ppO2 h' = current_ppO2 h
           \<and> current_O2 h' = current_O2 h
           \<and> current_temp h' = current_temp h
           \<and> current_barometric_pressure h' = current_barometric_pressure h
           \<and> current_mode h' = current_mode h"
  using error_frame_decoded [OF assms, of atof behind] by simp

text \<open>The error frame \<open>"E 03\r\n"\<close> (invalid argument) after a mode and readings were cached.\<close>

theorem error_frame_keeps_measurements_witness:
  "length (luminox_data ((example_handler [0x45, 0x20, 0x30, 0x33, 0x0D, 0x0A])
      \<lparr>current_mode := LUMINOX_MODE_POLLING, current_ppO2 := 209\<rparr>)) = UART_RX_BUF_SIZE
   \<and> luminox_data ((example_handler [0x45, 0x20, 0x30, 0x33, 0x0D, 0x0A])
      \<lparr>current_mode := LUMINOX_MODE_POLLING, current_ppO2 := 209\<rparr>) ! 0 = ERROR_RESPONSE
   \<and> (\<exists>h'. luminox_process_response example_atof quiet_stack
          ((example_handler [0x45, 0x20, 0x30, 0x33, 0x0D, 0x0A])
             \<lparr>current_mode := LUMINOX_MODE_POLLING, current_ppO2 := 209\<rparr>) = Inr h'
        \<and> current_ppO2 h' = 209 \<and> current_O2 h' = 0 \<and> current_temp h' = 0
        \<and> current_barometric_pressure h' = 0 \<and> current_mode h' = LUMINOX_MODE_POLLING)"
proof -
  let ?h = "(example_handler [0x45, 0x20, 0x30, 0x33, 0x0D, 0x0A])
              \<lparr>current_mode := LUMINOX_MODE_POLLING, current_ppO2 := 209\<rparr>"
  have len: "length (luminox_data ?h) = UART_RX_BUF_SIZE"
    by (simp add: example_defs)
  have tag: "luminox_data ?h ! 0 = ERROR_RESPONSE"
    by (simp add: example_defs tag_defs)
  from error_frame_keeps_measurements [OF len tag, of example_atof quiet_stack] len tag
  show ?thesis by (simp add: example_handler_def)
qed

text \<open>What the classifier returns for a handler with a full buffer.\<close>

lemma luminox_error_handler_classifies:
  assumes "length (luminox_data h) = UART_RX_BUF_SIZE"
  shows "luminox_error_handler h =
           Inr (if luminox_data h ! 3 = 0x30 then LUMINOX_ERR_RX_OVERFLOW
                else if luminox_data h ! 3 = 0x31 then LUMINOX_ERR_INVALID_CMD
                else if luminox_data h ! 3 = 0x32 then LUMINOX_ERR_INVALID_FRAME
                else if luminox_data h ! 3 = 0x33 then LUMINOX_ERR_INVALID_ARG
                else LUMINOX_ERROR)"
  using assms by (simp add: luminox_error_handler_def rd_def UART_RX_BUF_SIZE_def)

text \<open>
  C1. The classifier maps the fourth byte of the buffer to the fault kinds as the claim
  says, but the decoder does not leave that kind in \<open>err_code\<close>: for the error frame
  \<open>"E 00\r\n"\<close> the classifier returns \<open>LUMINOX_ERR_RX_OVERFLOW\<close>, the decoder stores
  it, jumps to \<open>EndWhile\<close> and overwrites it with \<open>LUMINOX_SUCCESS\<close>.
\<close>

theorem error_frame_result_overwritten:
  "luminox_error_handler (example_handler [0x45, 0x20, 0x30, 0x30, 0x0D, 0x0A])
     = Inr LUMINOX_ERR_RX_OVERFLOW
   \<and> process_loop example_atof quiet_stack (example_handler [0x45, 0x20, 0x30, 0x30, 0x0D, 0x0A]) 0
     = Inr ((example_handler [0x45, 0x20, 0x30, 0x30, 0x0D, 0x0A])
              \<lparr>err_code := LUMINOX_ERR_RX_OVERFLOW\<rparr>)
   \<and> luminox_process_response example_atof quiet_stack (example_handler [0x45, 0x20, 0x30, 0x30, 0x0D, 0x0A])
     = Inr ((example_handler [0x45, 0x20, 0x30, 0x30, 0x0D, 0x0A])
              \<lparr>err_code := LUMINOX_SUCCESS\<rparr>)"
  by (simp add: luminox_process_response_def process_loop.simps luminox_error_handler_def rd_def
      example_defs tag_defs)

section \<open>Measurement frames\<close>

text \<open>
  What the decoder does with a ppO2 frame: the six bytes that start two positions after
  the tag, followed by the bytes behind the local array, go to \<open>atof\<close>; its value is
  stored in \<open>current_ppO2\<close>; \<open>err_code\<close> is Success; no other field changes.
\<close>

lemma ppO2_frame_run:
  assumes buf: "luminox_data h = [PPO2, SEPARATOR] @ payload @ [0x0D, TERMINATOR] @ rest"
    and pl: "length payload = 6"
    and len: "length (luminox_data h) = UART_RX_BUF_SIZE"
  shows "luminox_process_response atof behind h =
           Inr (h\<lparr>current_ppO2 := atof (payload @ behind 2), err_code := LUMINOX_SUCCESS\<rparr>)"
proof -
  let ?h1 = "h\<lparr>current_ppO2 := atof (payload @ behind 2)\<rparr>"
  have r0: "rd (luminox_data h) 0 = Some PPO2"
    using len by (simp add: rd_def buf UART_RX_BUF_SIZE_def)
  have m: "memcpy_rd (luminox_data h) 2 6 = Some payload"
    using len pl by (simp add: memcpy_rd_def buf UART_RX_BUF_SIZE_def)
  have r8: "rd (luminox_data h) 8 = Some 0x0D"
    using len pl by (simp add: rd_def buf UART_RX_BUF_SIZE_def nth_append)
  have r9: "rd (luminox_data h) 9 = Some TERMINATOR"
    using len pl by (simp add: rd_def buf UART_RX_BUF_SIZE_def nth_append)
  have s9: "process_loop atof behind ?h1 9 = Inr ?h1"
    by (subst process_loop.simps) (simp add: r9)
  have s8: "process_loop atof behind ?h1 8 = Inr ?h1"
    by (subst process_loop.simps) (simp add: r8 s9 tag_defs)
  have "process_loop atof behind h 0 = Inr ?h1"
    by (subst process_loop.simps) (simp add: r0 m s8 tag_defs)
  then show ?thesis
    by (simp add: luminox_process_response_def)
qed

text \<open>
  C9. The value stored for a well-formed ppO2 frame is not the decimal number of its six
  bytes. The response \<open>"O 1234.5\r\n"\<close> is decoded with a digit \<open>7\<close> behind \<open>ppo2_data\<close>
  on the stack: the array is not terminated, the conversion reads \<open>1234.57\<close>, and that
  is stored in \<open>current_ppO2\<close>, while the six bytes alone read \<open>1234.5\<close>. (With a zero byte
  behind the array the stored value is \<open>1234.5\<close>; the result code is Success and the
  other fields are unchanged in both runs.)
\<close>

theorem ppO2_value_depends_on_stack:
  "luminox_process_response example_atof digit_behind
     (example_handler [0x4F, 0x20, 0x31, 0x32, 0x33, 0x34, 0x2E, 0x35, 0x0D, 0x0A])
   = Inr ((example_handler [0x4F, 0x20, 0x31, 0x32, 0x33, 0x34, 0x2E, 0x35, 0x0D, 0x0A])
            \<lparr>current_ppO2 := 123457 / 100, err_code := LUMINOX_SUCCESS\<rparr>)
   \<and> example_atof [0x31, 0x32, 0x33, 0x34, 0x2E, 0x35] = 2469 / 2
   \<and> luminox_process_response example_atof quiet_stack
     (example_handler [0x4F, 0x20, 0x31, 0x32, 0x33, 0x34, 0x2E, 0x35, 0x0D, 0x0A])
   = Inr ((example_handler [0x4F, 0x20, 0x31, 0x32, 0x33, 0x34, 0x2E, 0x35, 0x0D, 0x0A])
            \<lparr>current_ppO2 := 2469 / 2, err_code := LUMINOX_SUCCESS\<rparr>)"
proof -
  let ?h = "example_handler [0x4F, 0x20, 0x31, 0x32, 0x33, 0x34, 0x2E, 0x35, 0x0D, 0x0A]"
  have buf: "luminox_data ?h = [PPO2, SEPARATOR] @ [0x31, 0x32, 0x33, 0x34, 0x2E, 0x35]
               @ [0x0D, TERMINATOR] @ replicate 118 0"
    by (simp add: example_defs tag_defs)
  have pl: "length [0x31, 0x32, 0x33, 0x34, 0x2E, 0x35 :: u8] = 6"
    by simp
  have len: "length (luminox_data ?h) = UART_RX_BUF_SIZE"
    by (simp add: example_defs)
  have v: "example_atof ([0x31, 0x32, 0x33, 0x34, 0x2E, 0x35] @ digit_behind 2) = 123457 / 100"
    "example_atof ([0x31, 0x32, 0x33, 0x34, 0x2E, 0x35] @ quiet_stack 2) = 2469 / 2"
    "example_atof [0x31, 0x32, 0x33, 0x34, 0x2E, 0x35] = 2469 / 2"
    by (simp_all add: example_atof_def digit_behind_def quiet_stack_def)
  from ppO2_frame_run [OF buf pl len, of example_atof digit_behind]
    ppO2_frame_run [OF buf pl len, of example_atof quiet_stack] v
  show ?thesis by simp
qed

section \<open>Decoding twice\<close>

lemma rerun_refl: "rerun h h k k"
  by (simp add: rerun_def agree_def)

lemma rerun_err: "rerun h (h\<lparr>err_code := e\<rparr>) k (k\<lparr>err_code := e'\<rparr>)"
  by (simp add: rerun_def agree_def)

lemma rerun_mode: "rerun h (mode_echo m h) k (mode_echo m k)"
  by (simp add: rerun_def agree_def mode_echo_def)

lemma rerun_ppO2: "rerun (h\<lparr>current_ppO2 := v\<rparr>) h' (k\<lparr>current_ppO2 := v\<rparr>) k' \<Longrightarrow> rerun h h' k k'"
  by (auto simp add: rerun_def agree_def)
lemma rerun_O2: "rerun (h\<lparr>current_O2 := v\<rparr>) h' (k\<lparr>current_O2 := v\<rparr>) k' \<Longrightarrow> rerun h h' k k'"
  by (auto simp add: rerun_def agree_def)
lemma rerun_temp: "rerun (h\<lparr>current_temp := v\<rparr>) h' (k\<lparr>current_temp := v\<rparr>) k' \<Longrightarrow> rerun h h' k k'"
  by (auto simp add: rerun_def agree_def)
lemma rerun_baro: "rerun (h\<lparr>current_barometric_pressure := v\<rparr>) h' (k\<lparr>current_barometric_pressure := v\<rparr>) k' \<Longrightarrow> rerun h h' k k'"
  by (auto simp add: rerun_def agree_def)

text \<open>
  Two runs of the loop over the same buffer, with the same bytes behind the local arrays.
\<close>

lemma process_loop_two_runs:
  "process_loop atof behind h i = Inr h' \<Longrightarrow> luminox_data k = luminox_data h \<Longrightarrow>
     \<exists>k'. process_loop atof behind k i = Inr k' \<and> rerun h h' k k'"
proof (induction atof behind h i arbitrary: h' k rule: process_loop.induct)
  case (1 atof behind h i)
  note run = "1.prems"(1) and same = "1.prems"(2)
  from run obtain c where c: "rd (luminox_data h) (unat i) = Some c"
    by (subst (asm) process_loop.simps) (auto split: option.splits)
  have eh: "luminox_error_handler k = luminox_error_handler h"
    by (simp add: luminox_error_handler_def same)
  consider (lf) "c = TERMINATOR"
    | (err) "c \<noteq> TERMINATOR" "c = ERROR_RESPONSE"
    | (mode) "c \<noteq> TERMINATOR" "c \<noteq> ERROR_RESPONSE" "c = MODE_OUTPUT"
    | (ppo2) "c \<noteq> TERMINATOR" "c \<noteq> ERROR_RESPONSE" "c \<noteq> MODE_OUTPUT" "c = PPO2"
    | (o2) "c \<noteq> TERMINATOR" "c \<noteq> ERROR_RESPONSE" "c \<noteq> MODE_OUTPUT" "c \<noteq> PPO2" "c = O2"
    | (temp) "c \<noteq> TERMINATOR" "c \<noteq> ERROR_RESPONSE" "c \<noteq> MODE_OUTPUT" "c \<noteq> PPO2" "c \<noteq> O2"
        "c = TEMPERATURE"
    | (baro) "c \<noteq> TERMINATOR" "c \<noteq> ERROR_RESPONSE" "c \<noteq> MODE_OUTPUT" "c \<noteq> PPO2" "c \<noteq> O2"
        "c \<noteq> TEMPERATURE" "c = BAROMETRIC_PRESSURE"
    | (other) "c \<noteq> TERMINATOR" "c \<noteq> ERROR_RESPONSE" "c \<noteq> MODE_OUTPUT" "c \<noteq> PPO2" "c \<noteq> O2"
        "c \<noteq> TEMPERATURE" "c \<noteq> BAROMETRIC_PRESSURE"
    by blast
  then show ?case
  proof cases
    case lf
    with run c have "h' = h"
      by (subst (asm) process_loop.simps) simp
    moreover from lf c same have "process_loop atof behind k i = Inr k"
      by (subst process_loop.simps) simp
    ultimately show ?thesis by (simp add: rerun_refl)
  next
    case err
    with run c obtain e where e: "luminox_error_handler h = Inr e" and h': "h' = h\<lparr>err_code := e\<rparr>"
      by (subst (asm) process_loop.simps) (auto split: sum.splits)
    from err c same e eh have "process_loop atof behind k i = Inr (k\<lparr>err_code := e\<rparr>)"
      by (subst process_loop.simps) simp
    with h' show ?thesis by (simp add: rerun_err)
  next
    case mode
    with run c obtain m where m: "rd (luminox_data h) (unat i + 3) = Some m"
      and h': "h' = mode_echo m h"
      by (subst (asm) process_loop.simps) (auto split: option.splits)
    from mode c same m have "process_loop atof behind k i = Inr (mode_echo m k)"
      by (subst process_loop.simps) simp
    with h' show ?thesis by (simp add: rerun_mode)
  next
    case ppo2
    with run c obtain d where d: "memcpy_rd (luminox_data h) (unat (i + 2)) 6 = Some d"
      and r: "process_loop atof behind (h\<lparr>current_ppO2 := atof (d @ behind (i + 2))\<rparr>) (i + 2 + 5 + 1) = Inr h'"
      by (subst (asm) process_loop.simps) (auto split: option.splits)
    from "1.IH"(1) [OF c ppo2 d r, of "k\<lparr>current_ppO2 := atof (d @ behind (i + 2))\<rparr>"] same
    obtain k' where k': "process_loop atof behind (k\<lparr>current_ppO2 := atof (d @ behind (i + 2))\<rparr>) (i + 2 + 5 + 1) = Inr k'"
      and rr: "rerun (h\<lparr>current_ppO2 := atof (d @ behind (i + 2))\<rparr>) h' (k\<lparr>current_ppO2 := atof (d @ behind (i + 2))\<rparr>) k'"
      by auto
    from ppo2 c same d k' have "process_loop atof behind k i = Inr k'"
      by (subst process_loop.simps) simp
    with rr show ?thesis by (auto dest: rerun_ppO2)
  next
    case o2
    with run c obtain d where d: "memcpy_rd (luminox_data h) (unat (i + 2)) 6 = Some d"
      and r: "process_loop atof behind (h\<lparr>current_O2 := atof (d @ behind (i + 2))\<rparr>) (i + 2 + 5 + 1) = Inr h'"
      by (subst (asm) process_loop.simps) (auto split: option.splits)
    from "1.IH"(2) [OF c o2 d r, of "k\<lparr>current_O2 := atof (d @ behind (i + 2))\<rparr>"] same
    obtain k' where k': "process_loop atof behind (k\<lparr>current_O2 := atof (d @ behind (i + 2))\<rparr>) (i + 2 + 5 + 1) = Inr k'"
      and rr: "rerun (h\<lparr>current_O2 := atof (d @ behind (i + 2))\<rparr>) h' (k\<lparr>current_O2 := atof (d @ behind (i + 2))\<rparr>) k'"
      by auto
    from o2 c same d k' have "process_loop atof behind k i = Inr k'"
      by (subst process_loop.simps) simp
    with rr show ?thesis by (auto dest: rerun_O2)
  next
    case temp
    with run c obtain d where d: "memcpy_rd (luminox_data h) (unat (i + 2)) 5 = Some d"
      and r: "process_loop atof behind (h\<lparr>current_temp := atof (d @ behind (i + 2))\<rparr>) (i + 2 + 4 + 1) = Inr h'"
      by (subst (asm) process_loop.simps) (auto split: option.splits)
    from "1.IH"(3) [OF c temp d r, of "k\<lparr>current_temp := atof (d @ behind (i + 2))\<rparr>"] same
    obtain k' where k': "process_loop atof behind (k\<lparr>current_temp := atof (d @ behind (i + 2))\<rparr>) (i + 2 + 4 + 1) = Inr k'"
      and rr: "rerun (h\<lparr>current_temp := atof (d @ behind (i + 2))\<rparr>) h' (k\<lparr>current_temp := atof (d @ behind (i + 2))\<rparr>) k'"
      by auto
    from temp c same d k' have "process_loop atof behind k i = Inr k'"
      by (subst process_loop.simps) simp
    with rr show ?thesis by (auto dest: rerun_temp)
  next
    case baro
    with run c obtain d where d: "memcpy_rd (luminox_data h) (unat (i + 2)) 4 = Some d"
      and r: "process_loop atof behind (h\<lparr>current_barometric_pressure := atof (d @ behind (i + 2))\<rparr>) (i + 2 + 3 + 1) = Inr h'"
      by (subst (asm) process_loop.simps) (auto split: option.splits)
    from "1.IH"(4) [OF c baro d r, of "k\<lparr>current_barometric_pressure := atof (d @ behind (i + 2))\<rparr>"] same
    obtain k' where k': "process_loop atof behind (k\<lparr>current_barometric_pressure := atof (d @ behind (i + 2))\<rparr>) (i + 2 + 3 + 1) = Inr k'"
      and rr: "rerun (h\<lparr>current_barometric_pressure := atof (d @ behind (i + 2))\<rparr>) h' (k\<lparr>current_barometric_pressure := atof (d @ behind (i + 2))\<rparr>) k'"
      by auto
    from baro c same d k' have "process_loop atof behind k i = Inr k'"
      by (subst process_loop.simps) simp
    with rr show ?thesis by (auto dest: rerun_baro)
  next
    case other
    with run c have r: "process_loop atof behind h (i + 1) = Inr h'"
      by (subst (asm) process_loop.simps) simp
    from "1.IH"(5) [OF c other r same]
    obtain k' where k': "process_loop atof behind k (i + 1) = Inr k'" and rr: "rerun h h' k k'"
      by auto
    from other c same k' have "process_loop atof behind k i = Inr k'"
      by (subst process_loop.simps) simp
    with rr show ?thesis by auto
  qed
qed

text \<open>
  With the same bytes behind the local arrays in both runs, the second decode returns
  the state the first one returned.
\<close>

lemma decode_twice_same_stack:
  assumes "luminox_process_response atof behind h = Inr h'"
  shows "luminox_process_response atof behind h' = Inr h'"
proof -
  from assms obtain g where g: "process_loop atof behind h 0 = Inr g"
    and h': "h' = g\<lparr>err_code := LUMINOX_SUCCESS\<rparr>"
    by (auto simp: luminox_process_response_def split: sum.splits)
  have dg: "luminox_data g = luminox_data h"
    using g by (rule process_loop_data)
  from process_loop_two_runs [OF g, of h'] h' dg
  obtain k' where k': "process_loop atof behind h' 0 = Inr k'" and rr: "rerun h g h' k'"
    by auto
  have dk: "luminox_data k' = luminox_data h'"
    using k' by (rule process_loop_data)
  from rr h' have "current_mode k' = current_mode g" "current_ppO2 k' = current_ppO2 g"
    "current_O2 k' = current_O2 g" "current_temp k' = current_temp g"
    "current_barometric_pressure k' = current_barometric_pressure g"
    by (auto simp: rerun_def agree_def)
  with dk h' have "k'\<lparr>err_code := LUMINOX_SUCCESS\<rparr> = h'"
    by (intro luminox_handler_t.equality) simp_all
  with k' show ?thesis
    by (simp add: luminox_process_response_def)
qed

text \<open>The response to the request for all readings, decoded with a zero byte behind the arrays.\<close>

lemma all_response_decoded:
  "luminox_process_response example_atof quiet_stack (example_handler all_response)
     = Inr ((example_handler all_response)
              \<lparr>current_ppO2 := 2091 / 10, current_O2 := 413 / 20, current_temp := 117 / 5,
                 current_barometric_pressure := 1013, err_code := LUMINOX_SUCCESS\<rparr>)"
  by (simp add: luminox_process_response_def process_loop.simps rd_def memcpy_rd_def
      example_defs all_response_def tag_defs quiet_stack_def)

text \<open>
  C10. Decoding the same buffer twice does not give the same state twice. The first
  decode of the response to the request for all readings stores the temperature
  \<open>23.4\<close>, and leaves the bytes \<open>020.65\<close> in \<open>o2_data\<close>. With these bytes behind \<open>temp_data\<close>
  the second decode, from the state the first one returned and over the same buffer,
  hands \<open>+23.4020.65\<close> to the conversion and stores \<open>23.402\<close>.
\<close>

theorem second_decode_differs:
  "luminox_process_response example_atof quiet_stack (example_handler all_response)
     = Inr ((example_handler all_response)
              \<lparr>current_ppO2 := 2091 / 10, current_O2 := 413 / 20, current_temp := 117 / 5,
                 current_barometric_pressure := 1013, err_code := LUMINOX_SUCCESS\<rparr>)
   \<and> luminox_process_response example_atof o2_data_behind_temp
         ((example_handler all_response)
              \<lparr>current_ppO2 := 2091 / 10, current_O2 := 413 / 20, current_temp := 117 / 5,
                 current_barometric_pressure := 1013, err_code := LUMINOX_SUCCESS\<rparr>)
     = Inr ((example_handler all_response)
              \<lparr>current_ppO2 := 2091 / 10, current_O2 := 413 / 20, current_temp := 11701 / 500,
                 current_barometric_pressure := 1013, err_code := LUMINOX_SUCCESS\<rparr>)"
  by (simp add: luminox_process_response_def process_loop.simps rd_def memcpy_rd_def
      example_defs all_response_def tag_defs quiet_stack_def o2_data_behind_temp_def)

section \<open>The request operations\<close>

lemma tx_calls_call:
  "tx_calls (call_luminox_tx tx request n s) = tx_calls s @ [(request, n)]"
  by (simp add: call_luminox_tx_def split: prod.splits)

lemma tx_calls_transmit_and_process:
  "tx_calls (snd (transmit_and_process tx atof behind request n s)) = tx_calls s @ [(request, n)]"
  by (simp add: transmit_and_process_def Let_def tx_calls_call split: sum.splits)

lemma transmit_and_process_result:
  "fst (transmit_and_process tx atof behind request n s) = Inr rc \<Longrightarrow>
     rc = err_code (handler (snd (transmit_and_process tx atof behind request n s)))
     \<and> rc = LUMINOX_SUCCESS"
  by (auto simp: transmit_and_process_def Let_def luminox_process_response_def
      split: sum.splits)

lemma transmit_and_process_not_invalid:
  "fst (transmit_and_process tx atof behind request n s) \<noteq> Inr LUMINOX_ERR_INVALID_MODE"
  "fst (transmit_and_process tx atof behind request n s) \<noteq> Inr LUMINOX_ERR_INVALID_INFO"
  using transmit_and_process_result [of tx atof behind request n s] by auto

lemma world_transmit_and_process:
  "world (snd (transmit_and_process tx atof behind request n s))
     = snd (tx request n (handler s, world s))"
  by (simp add: transmit_and_process_def Let_def call_luminox_tx_def
      split: prod.splits sum.splits)

lemma example_state_untransmitted:
  "tx_calls example_state = []" "transmitted example_state = []"
  by (simp_all add: example_state_def transmitted_def)

text \<open>
  C7. For each of the three modes \<open>luminox_set_ouput_mode\<close> calls the callback once
  more, with the five bytes \<open>M\<close>, space, the digit \<open>0\<close> (streaming), \<open>1\<close> (polling) or \<open>2\<close>
  (off), carriage return, line feed; for each of the three kinds of information
  \<open>luminox_request_sensor_info\<close> does so with \<open>#\<close>, space, the digit \<open>0\<close>, \<open>1\<close> or \<open>2\<close>,
  carriage return, line feed. Polling gives \<open>"M 1\r\n"\<close> and the serial number
  \<open>"# 1\r\n"\<close>. The callback is run on the request array with the size 5: the state of
  the application after the operation is the one the callback returned for that call.
\<close>

theorem encoders_transmit_five_byte_frame:
  "transmitted (snd (luminox_set_ouput_mode tx atof behind LUMINOX_MODE_STREAMING s))
     = transmitted s @ [[0x4D, 0x20, 0x30, 0x0D, 0x0A]]
   \<and> transmitted (snd (luminox_set_ouput_mode tx atof behind LUMINOX_MODE_POLLING s))
     = transmitted s @ [[0x4D, 0x20, 0x31, 0x0D, 0x0A]]
   \<and> transmitted (snd (luminox_set_ouput_mode tx atof behind LUMINOX_MODE_OFF s))
     = transmitted s @ [[0x4D, 0x20, 0x32, 0x0D, 0x0A]]
   \<and> transmitted (snd (luminox_request_sensor_info tx atof behind LUMINOX_INFO_DATE_OF_MFG s))
     = transmitted s @ [[0x23, 0x20, 0x30, 0x0D, 0x0A]]
   \<and> transmitted (snd (luminox_request_sensor_info tx atof behind LUMINOX_INFO_SERIAL_NUM s))
     = transmitted s @ [[0x23, 0x20, 0x31, 0x0D, 0x0A]]
   \<and> transmitted (snd (luminox_request_sensor_info tx atof behind LUMINOX_INFO_SW_VER s))
     = transmitted s @ [[0x23, 0x20, 0x32, 0x0D, 0x0A]]
   \<and> world (snd (luminox_set_ouput_mode tx atof behind LUMINOX_MODE_STREAMING s))
     = snd (tx [0x4D, 0x20, 0x30, 0x0D, 0x0A, 0x00] 5 (handler s, world s))
   \<and> world (snd (luminox_set_ouput_mode tx atof behind LUMINOX_MODE_POLLING s))
     = snd (tx [0x4D, 0x20, 0x31, 0x0D, 0x0A, 0x00] 5 (handler s, world s))
   \<and> world (snd (luminox_set_ouput_mode tx atof behind LUMINOX_MODE_OFF s))
     = snd (tx [0x4D, 0x20, 0x32, 0x0D, 0x0A, 0x00] 5 (handler s, world s))
   \<and> world (snd (luminox_request_sensor_info tx atof behind LUMINOX_INFO_DATE_OF_MFG s))
     = snd (tx [0x23, 0x20, 0x30, 0x0D, 0x0A, 0x00] 5 (handler s, world s))
   \<and> world (snd (luminox_request_sensor_info tx atof behind LUMINOX_INFO_SERIAL_NUM s))
     = snd (tx [0x23, 0x20, 0x31, 0x0D, 0x0A, 0x00] 5 (handler s, world s))
   \<and> world (snd (luminox_request_sensor_info tx atof behind LUMINOX_INFO_SW_VER s))
     = snd (tx [0x23, 0x20, 0x32, 0x0D, 0x0A, 0x00] 5 (handler s, world s))"
  by (simp add: luminox_set_ouput_mode_def luminox_request_sensor_info_def mode_defs info_defs
      transmitted_def tx_calls_transmit_and_process world_transmit_and_process
      mode_msg_def info_req_def)

text \<open>From a state in which nothing was transmitted yet, with the example callback.\<close>

theorem encoders_transmit_five_byte_frame_witness:
  "transmitted (snd (luminox_set_ouput_mode example_tx example_atof quiet_stack LUMINOX_MODE_POLLING
      example_state)) = [[0x4D, 0x20, 0x31, 0x0D, 0x0A]]
   \<and> transmitted (snd (luminox_request_sensor_info example_tx example_atof quiet_stack
      LUMINOX_INFO_SERIAL_NUM example_state)) = [[0x23, 0x20, 0x31, 0x0D, 0x0A]]"
  using encoders_transmit_five_byte_frame [of example_tx example_atof quiet_stack example_state]
  by (simp add: example_state_untransmitted)

text \<open>
  C8. The encoders fail for an argument that is none of the enumerators, and only
  then: for a mode outside Streaming, Polling, Off, \<open>luminox_set_ouput_mode\<close> returns
  \<open>LUMINOX_ERR_INVALID_MODE\<close> and leaves the state as it was, so the callback was not
  called; for a kind of information outside the three defined ones,
  \<open>luminox_request_sensor_info\<close> returns \<open>LUMINOX_ERR_INVALID_INFO\<close> in the same way. For
  an enumerator the callback is called once and the result is not that error.
\<close>

theorem invalid_argument_not_transmitted:
  "(mode \<notin> {LUMINOX_MODE_STREAMING, LUMINOX_MODE_POLLING, LUMINOX_MODE_OFF} \<longrightarrow>
      luminox_set_ouput_mode tx atof behind mode s = (Inr LUMINOX_ERR_INVALID_MODE, s))
   \<and> (info \<notin> {LUMINOX_INFO_DATE_OF_MFG, LUMINOX_INFO_SERIAL_NUM, LUMINOX_INFO_SW_VER} \<longrightarrow>
      luminox_request_sensor_info tx atof behind info s = (Inr LUMINOX_ERR_INVALID_INFO, s))
   \<and> (mode \<in> {LUMINOX_MODE_STREAMING, LUMINOX_MODE_POLLING, LUMINOX_MODE_OFF} \<longrightarrow>
      fst (luminox_set_ouput_mode tx atof behind mode s) \<noteq> Inr LUMINOX_ERR_INVALID_MODE
      \<and> length (tx_calls (snd (luminox_set_ouput_mode tx atof behind mode s)))
          = length (tx_calls s) + 1)
   \<and> (info \<in> {LUMINOX_INFO_DATE_OF_MFG, LUMINOX_INFO_SERIAL_NUM, LUMINOX_INFO_SW_VER} \<longrightarrow>
      fst (luminox_request_sensor_info tx atof behind info s) \<noteq> Inr LUMINOX_ERR_INVALID_INFO
      \<and> length (tx_calls (snd (luminox_request_sensor_info tx atof behind info s)))
          = length (tx_calls s) + 1)"
  by (auto simp: luminox_set_ouput_mode_def luminox_request_sensor_info_def
      transmit_and_process_not_invalid tx_calls_transmit_and_process)

text \<open>
  The mode 3 and the kind of information 7 are no enumerators; Polling and the serial
  number are.
\<close>

theorem invalid_argument_not_transmitted_witness:
  "luminox_set_ouput_mode example_tx example_atof quiet_stack 3 example_state
     = (Inr LUMINOX_ERR_INVALID_MODE, example_state)
   \<and> luminox_request_sensor_info example_tx example_atof quiet_stack 7 example_state
     = (Inr LUMINOX_ERR_INVALID_INFO, example_state)
   \<and> tx_calls example_state = []
   \<and> length (tx_calls (snd (luminox_set_ouput_mode example_tx example_atof quiet_stack LUMINOX_MODE_POLLING
        example_state))) = 1
   \<and> length (tx_calls (snd (luminox_request_sensor_info example_tx example_atof quiet_stack
        LUMINOX_INFO_SERIAL_NUM example_state))) = 1"
  using invalid_argument_not_transmitted [of 3 example_tx example_atof quiet_stack example_state 7]
    invalid_argument_not_transmitted
      [of LUMINOX_MODE_POLLING example_tx example_atof quiet_stack example_state
        LUMINOX_INFO_SERIAL_NUM]
  by (simp add: mode_defs info_defs example_state_untransmitted)

text \<open>
  C2. On the paths that transmit (the six requests without an argument, a mode request
  with one of the three modes, an information request with one of the three kinds), the
  code an operation returns is the \<open>err_code\<close> it leaves in the handler. On the two early
  exits the error code is returned and the state is returned as it was: \<open>err_code\<close> keeps
  its earlier value.
\<close>

theorem returned_code_stored_on_transmit_paths:
  "(r \<in> {luminox_request_ppO2 tx atof behind s, luminox_request_O2 tx atof behind s,
          luminox_request_temp tx atof behind s, luminox_request_barometric_pressure tx atof behind s,
          luminox_request_sensor_status tx atof behind s, luminox_request_all tx atof behind s}
        \<union> (\<lambda>mode. luminox_set_ouput_mode tx atof behind mode s)
            ` {LUMINOX_MODE_STREAMING, LUMINOX_MODE_POLLING, LUMINOX_MODE_OFF}
        \<union> (\<lambda>info. luminox_request_sensor_info tx atof behind info s)
            ` {LUMINOX_INFO_DATE_OF_MFG, LUMINOX_INFO_SERIAL_NUM, LUMINOX_INFO_SW_VER}
      \<and> fst r = Inr rc \<longrightarrow> rc = err_code (handler (snd r)))
   \<and> (mode \<notin> {LUMINOX_MODE_STREAMING, LUMINOX_MODE_POLLING, LUMINOX_MODE_OFF} \<longrightarrow>
        luminox_set_ouput_mode tx atof behind mode s = (Inr LUMINOX_ERR_INVALID_MODE, s))
   \<and> (info \<notin> {LUMINOX_INFO_DATE_OF_MFG, LUMINOX_INFO_SERIAL_NUM, LUMINOX_INFO_SW_VER} \<longrightarrow>
        luminox_request_sensor_info tx atof behind info s = (Inr LUMINOX_ERR_INVALID_INFO, s))"
proof (intro conjI impI)
  assume a: "r \<in> {luminox_request_ppO2 tx atof behind s, luminox_request_O2 tx atof behind s,
          luminox_request_temp tx atof behind s, luminox_request_barometric_pressure tx atof behind s,
          luminox_request_sensor_status tx atof behind s, luminox_request_all tx atof behind s}
        \<union> (\<lambda>mode. luminox_set_ouput_mode tx atof behind mode s)
            ` {LUMINOX_MODE_STREAMING, LUMINOX_MODE_POLLING, LUMINOX_MODE_OFF}
        \<union> (\<lambda>info. luminox_request_sensor_info tx atof behind info s)
            ` {LUMINOX_INFO_DATE_OF_MFG, LUMINOX_INFO_SERIAL_NUM, LUMINOX_INFO_SW_VER}
      \<and> fst r = Inr rc"
  then have "\<exists>request n. r = transmit_and_process tx atof behind request n s"
    by (auto simp: luminox_request_ppO2_def luminox_request_O2_def luminox_request_temp_def
        luminox_request_barometric_pressure_def luminox_request_sensor_status_def
        luminox_request_all_def luminox_set_ouput_mode_def luminox_request_sensor_info_def
        mode_defs info_defs)
  then obtain request n where r: "r = transmit_and_process tx atof behind request n s"
    by blast
  from a have "fst r = Inr rc" ..
  with r show "rc = err_code (handler (snd r))"
    using transmit_and_process_result [of tx atof behind request n s rc] by simp
qed (simp_all add: luminox_set_ouput_mode_def luminox_request_sensor_info_def)

text \<open>
  The request for ppO2 with the example callback, whose answer decodes; and the two
  early exits, from a state whose \<open>err_code\<close> is \<open>LUMINOX_ERR_TIMEOUT\<close>.
\<close>

lemma example_request_ppO2:
  "fst (luminox_request_ppO2 example_tx example_atof quiet_stack example_state) = Inr LUMINOX_SUCCESS"
  by (simp add: luminox_request_ppO2_def transmit_and_process_def call_luminox_tx_def
      example_state_def example_tx_def luminox_process_response_def process_loop.simps rd_def
      example_defs tag_defs)

theorem returned_code_stored_on_transmit_paths_witness:
  "fst (luminox_request_ppO2 example_tx example_atof quiet_stack example_state) = Inr LUMINOX_SUCCESS
   \<and> err_code (handler (snd (luminox_request_ppO2 example_tx example_atof quiet_stack example_state)))
       = LUMINOX_SUCCESS
   \<and> luminox_set_ouput_mode example_tx example_atof quiet_stack 3 example_state
       = (Inr LUMINOX_ERR_INVALID_MODE, example_state)
   \<and> luminox_request_sensor_info example_tx example_atof quiet_stack 7 example_state
       = (Inr LUMINOX_ERR_INVALID_INFO, example_state)"
  using returned_code_stored_on_transmit_paths
    [of "luminox_request_ppO2 example_tx example_atof quiet_stack example_state"
        example_tx example_atof quiet_stack example_state LUMINOX_SUCCESS 3 7]
    example_request_ppO2
  by (simp add: mode_defs info_defs)

text \<open>
  The claim fails on the early exits: with mode 3 the operation returns
  \<open>LUMINOX_ERR_INVALID_MODE\<close>, and the \<open>err_code\<close> of the handler it leaves is still
  \<open>LUMINOX_ERR_TIMEOUT\<close>; likewise for the kind of information 7.
\<close>

theorem invalid_mode_return_not_stored:
  "fst (luminox_set_ouput_mode example_tx example_atof quiet_stack 3 example_state)
     = Inr LUMINOX_ERR_INVALID_MODE
   \<and> err_code (handler (snd (luminox_set_ouput_mode example_tx example_atof quiet_stack 3 example_state)))
     = LUMINOX_ERR_TIMEOUT
   \<and> fst (luminox_request_sensor_info example_tx example_atof quiet_stack 7 example_state)
     = Inr LUMINOX_ERR_INVALID_INFO
   \<and> err_code (handler (snd (luminox_request_sensor_info example_tx example_atof quiet_stack 7
        example_state)))
     = LUMINOX_ERR_TIMEOUT"
  by (simp add: luminox_set_ouput_mode_def luminox_request_sensor_info_def mode_defs info_defs
      example_state_def example_handler_def)

section \<open>The state after initialisation\<close>













section \<open>Frames and the end of the buffer\<close>

lemma rd_frame:
  "n < length fr \<Longrightarrow> length (fr @ rest) = UART_RX_BUF_SIZE \<Longrightarrow> rd (fr @ rest) n = Some (fr ! n)"
  by (simp add: rd_def nth_append)

lemma memcpy_rd_frame:
  "n + m \<le> length fr \<Longrightarrow> length (fr @ rest) = UART_RX_BUF_SIZE \<Longrightarrow>
     memcpy_rd (fr @ rest) n m = Some (take m (drop n fr))"
  by (simp add: memcpy_rd_def)

lemma unat_u16_small:
  "unat (i :: u16) < 128 \<Longrightarrow> unat (i + 2) = unat i + 2 \<and> unat (i + 2 + 5 + 1) = unat i + 8
     \<and> unat (i + 2 + 4 + 1) = unat i + 7 \<and> unat (i + 2 + 3 + 1) = unat i + 6
     \<and> unat (i + 1) = unat i + 1"
  by (simp add: unat_word_ariths)

lemma mode_echo_data:
  "mode_echo m (h\<lparr>luminox_data := b\<rparr>) = (mode_echo m h)\<lparr>luminox_data := b\<rparr>"
  by (simp add: mode_echo_def)

lemma process_loop_within_frame:
  "scan_fits fr n \<Longrightarrow> unat i = n \<Longrightarrow> length fr \<le> UART_RX_BUF_SIZE \<Longrightarrow>
     \<exists>h'. \<forall>rest. length (fr @ rest) = UART_RX_BUF_SIZE \<longrightarrow>
       process_loop atof behind (h\<lparr>luminox_data := fr @ rest\<rparr>) i = Inr (h'\<lparr>luminox_data := fr @ rest\<rparr>)"
proof (induction fr n arbitrary: i h rule: scan_fits.induct)
  case (1 fr n)
  note fits = "1.prems"(1) and i = "1.prems"(2) and len = "1.prems"(3)
  from fits have n: "n < length fr"
    by (subst (asm) scan_fits.simps) (simp split: if_splits)
  with len i have small: "unat i < 128"
    by (simp add: UART_RX_BUF_SIZE_def)
  consider (lf) "fr ! n = TERMINATOR"
    | (err) "fr ! n \<noteq> TERMINATOR" "fr ! n = ERROR_RESPONSE"
    | (mode) "fr ! n \<noteq> TERMINATOR" "fr ! n \<noteq> ERROR_RESPONSE" "fr ! n = MODE_OUTPUT"
    | (ppo2) "fr ! n \<noteq> TERMINATOR" "fr ! n \<noteq> ERROR_RESPONSE" "fr ! n \<noteq> MODE_OUTPUT"
        "fr ! n = PPO2"
    | (o2) "fr ! n \<noteq> TERMINATOR" "fr ! n \<noteq> ERROR_RESPONSE" "fr ! n \<noteq> MODE_OUTPUT"
        "fr ! n \<noteq> PPO2" "fr ! n = O2"
    | (temp) "fr ! n \<noteq> TERMINATOR" "fr ! n \<noteq> ERROR_RESPONSE" "fr ! n \<noteq> MODE_OUTPUT"
        "fr ! n \<noteq> PPO2" "fr ! n \<noteq> O2" "fr ! n = TEMPERATURE"
    | (baro) "fr ! n \<noteq> TERMINATOR" "fr ! n \<noteq> ERROR_RESPONSE" "fr ! n \<noteq> MODE_OUTPUT"
        "fr ! n \<noteq> PPO2" "fr ! n \<noteq> O2" "fr ! n \<noteq> TEMPERATURE" "fr ! n = BAROMETRIC_PRESSURE"
    | (other) "fr ! n \<noteq> TERMINATOR" "fr ! n \<noteq> ERROR_RESPONSE" "fr ! n \<noteq> MODE_OUTPUT"
        "fr ! n \<noteq> PPO2" "fr ! n \<noteq> O2" "fr ! n \<noteq> TEMPERATURE" "fr ! n \<noteq> BAROMETRIC_PRESSURE"
    by blast
  then show ?case
  proof cases
    case lf
    have "process_loop atof behind (h\<lparr>luminox_data := fr @ rest\<rparr>) i = Inr (h\<lparr>luminox_data := fr @ rest\<rparr>)"
      if r: "length (fr @ rest) = UART_RX_BUF_SIZE" for rest
      using lf by (subst process_loop.simps) (simp add: i rd_frame [OF n r])
    then show ?thesis by blast
  next
    case err
    from fits n err have three: "3 < length fr"
      by (subst (asm) scan_fits.simps) simp
    define e where "e = (if fr ! 3 = 0x30 then LUMINOX_ERR_RX_OVERFLOW
        else if fr ! 3 = 0x31 then LUMINOX_ERR_INVALID_CMD
        else if fr ! 3 = 0x32 then LUMINOX_ERR_INVALID_FRAME
        else if fr ! 3 = 0x33 then LUMINOX_ERR_INVALID_ARG
        else LUMINOX_ERROR)"
    have e: "luminox_error_handler (h\<lparr>luminox_data := fr @ rest\<rparr>) = Inr e"
      if r: "length (fr @ rest) = UART_RX_BUF_SIZE" for rest
      by (simp add: luminox_error_handler_def rd_frame [OF three r] e_def)
    have "process_loop atof behind (h\<lparr>luminox_data := fr @ rest\<rparr>) i
        = Inr (h\<lparr>err_code := e, luminox_data := fr @ rest\<rparr>)"
      if r: "length (fr @ rest) = UART_RX_BUF_SIZE" for rest
      using err by (subst process_loop.simps) (simp add: i rd_frame [OF n r] e [OF r])
    then show ?thesis by blast
  next
    case mode
    from fits n mode have three: "n + 3 < length fr"
      by (subst (asm) scan_fits.simps) simp
    have "process_loop atof behind (h\<lparr>luminox_data := fr @ rest\<rparr>) i
        = Inr ((mode_echo (fr ! (n + 3)) h)\<lparr>luminox_data := fr @ rest\<rparr>)"
      if r: "length (fr @ rest) = UART_RX_BUF_SIZE" for rest
      using mode
      by (subst process_loop.simps)
        (simp add: i rd_frame [OF n r] rd_frame [OF three r] mode_echo_data)
    then show ?thesis by blast
  next
    case ppo2
    from fits n ppo2 have fits': "scan_fits fr (n + 8)"
      by (subst (asm) scan_fits.simps) simp
    then have n': "n + 8 < length fr"
      by (subst (asm) scan_fits.simps) (simp split: if_splits)
    let ?v = "atof (take 6 (drop (n + 2) fr) @ behind (i + 2))"
    from unat_u16_small [OF small] i
    have i': "unat (i + 2 + 5 + 1) = n + 8" and i2: "unat (i + 2) = n + 2"
      by (simp_all only:)
    from "1.IH"(1) [OF _ ppo2 fits' i' len, of "h\<lparr>current_ppO2 := ?v\<rparr>"] n
    obtain h' where h': "\<forall>rest. length (fr @ rest) = UART_RX_BUF_SIZE \<longrightarrow>
        process_loop atof behind (h\<lparr>current_ppO2 := ?v, luminox_data := fr @ rest\<rparr>) (i + 2 + 5 + 1)
          = Inr (h'\<lparr>luminox_data := fr @ rest\<rparr>)"
      by auto
    have "process_loop atof behind (h\<lparr>luminox_data := fr @ rest\<rparr>) i = Inr (h'\<lparr>luminox_data := fr @ rest\<rparr>)"
      if r: "length (fr @ rest) = UART_RX_BUF_SIZE" for rest
    proof -
      from n' have "n + 2 + 6 \<le> length fr" by simp
      then have m: "memcpy_rd (fr @ rest) (n + 2) 6 = Some (take 6 (drop (n + 2) fr))"
        using r by (rule memcpy_rd_frame)
      have swap: "h\<lparr>luminox_data := fr @ rest, current_ppO2 := ?v\<rparr>
          = h\<lparr>current_ppO2 := ?v, luminox_data := fr @ rest\<rparr>"
        by (rule luminox_handler_t.equality) simp_all
      from h' r have "process_loop atof behind (h\<lparr>current_ppO2 := ?v, luminox_data := fr @ rest\<rparr>)
          (i + 2 + 5 + 1) = Inr (h'\<lparr>luminox_data := fr @ rest\<rparr>)"
        by blast
      then have "process_loop atof behind (h\<lparr>luminox_data := fr @ rest, current_ppO2 := ?v\<rparr>)
          (i + 2 + 5 + 1) = Inr (h'\<lparr>luminox_data := fr @ rest\<rparr>)"
        by (simp only: swap)
      with ppo2 m show ?thesis
        by (subst process_loop.simps) (simp add: i i2 rd_frame [OF n r])
    qed
    then show ?thesis by blast
  next
    case o2
    from fits n o2 have fits': "scan_fits fr (n + 8)"
      by (subst (asm) scan_fits.simps) simp
    then have n': "n + 8 < length fr"
      by (subst (asm) scan_fits.simps) (simp split: if_splits)
    let ?v = "atof (take 6 (drop (n + 2) fr) @ behind (i + 2))"
    from unat_u16_small [OF small] i
    have i': "unat (i + 2 + 5 + 1) = n + 8" and i2: "unat (i + 2) = n + 2"
      by (simp_all only:)
    from "1.IH"(2) [OF _ o2 fits' i' len, of "h\<lparr>current_O2 := ?v\<rparr>"] n
    obtain h' where h': "\<forall>rest. length (fr @ rest) = UART_RX_BUF_SIZE \<longrightarrow>
        process_loop atof behind (h\<lparr>current_O2 := ?v, luminox_data := fr @ rest\<rparr>) (i + 2 + 5 + 1)
          = Inr (h'\<lparr>luminox_data := fr @ rest\<rparr>)"
      by auto
    have "process_loop atof behind (h\<lparr>luminox_data := fr @ rest\<rparr>) i = Inr (h'\<lparr>luminox_data := fr @ rest\<rparr>)"
      if r: "length (fr @ rest) = UART_RX_BUF_SIZE" for rest
    proof -
      from n' have "n + 2 + 6 \<le> length fr" by simp
      then have m: "memcpy_rd (fr @ rest) (n + 2) 6 = Some (take 6 (drop (n + 2) fr))"
        using r by (rule memcpy_rd_frame)
      have swap: "h\<lparr>luminox_data := fr @ rest, current_O2 := ?v\<rparr>
          = h\<lparr>current_O2 := ?v, luminox_data := fr @ rest\<rparr>"
        by (rule luminox_handler_t.equality) simp_all
      from h' r have "process_loop atof behind (h\<lparr>current_O2 := ?v, luminox_data := fr @ rest\<rparr>)
          (i + 2 + 5 + 1) = Inr (h'\<lparr>luminox_data := fr @ rest\<rparr>)"
        by blast
      then have "process_loop atof behind (h\<lparr>luminox_data := fr @ rest, current_O2 := ?v\<rparr>)
          (i + 2 + 5 + 1) = Inr (h'\<lparr>luminox_data := fr @ rest\<rparr>)"
        by (simp only: swap)
      with o2 m show ?thesis
        by (subst process_loop.simps) (simp add: i i2 rd_frame [OF n r])
    qed
    then show ?thesis by blast
  next
    case temp
    from fits n temp have fits': "scan_fits fr (n + 7)"
      by (subst (asm) scan_fits.simps) simp
    then have n': "n + 7 < length fr"
      by (subst (asm) scan_fits.simps) (simp split: if_splits)
    let ?v = "atof (take 5 (drop (n + 2) fr) @ behind (i + 2))"
    from unat_u16_small [OF small] i
    have i': "unat (i + 2 + 4 + 1) = n + 7" and i2: "unat (i + 2) = n + 2"
      by (simp_all only:)
    from "1.IH"(3) [OF _ temp fits' i' len, of "h\<lparr>current_temp := ?v\<rparr>"] n
    obtain h' where h': "\<forall>rest. length (fr @ rest) = UART_RX_BUF_SIZE \<longrightarrow>
        process_loop atof behind (h\<lparr>current_temp := ?v, luminox_data := fr @ rest\<rparr>) (i + 2 + 4 + 1)
          = Inr (h'\<lparr>luminox_data := fr @ rest\<rparr>)"
      by auto
    have "process_loop atof behind (h\<lparr>luminox_data := fr @ rest\<rparr>) i = Inr (h'\<lparr>luminox_data := fr @ rest\<rparr>)"
      if r: "length (fr @ rest) = UART_RX_BUF_SIZE" for rest
    proof -
      from n' have "n + 2 + 5 \<le> length fr" by simp
      then have m: "memcpy_rd (fr @ rest) (n + 2) 5 = Some (take 5 (drop (n + 2) fr))"
        using r by (rule memcpy_rd_frame)
      have swap: "h\<lparr>luminox_data := fr @ rest, current_temp := ?v\<rparr>
          = h\<lparr>current_temp := ?v, luminox_data := fr @ rest\<rparr>"
        by (rule luminox_handler_t.equality) simp_all
      from h' r have "process_loop atof behind (h\<lparr>current_temp := ?v, luminox_data := fr @ rest\<rparr>)
          (i + 2 + 4 + 1) = Inr (h'\<lparr>luminox_data := fr @ rest\<rparr>)"
        by blast
      then have "process_loop atof behind (h\<lparr>luminox_data := fr @ rest, current_temp := ?v\<rparr>)
          (i + 2 + 4 + 1) = Inr (h'\<lparr>luminox_data := fr @ rest\<rparr>)"
        by (simp only: swap)
      with temp m show ?thesis
        by (subst process_loop.simps) (simp add: i i2 rd_frame [OF n r])
    qed
    then show ?thesis by blast
  next
    case baro
    from fits n baro have fits': "scan_fits fr (n + 6)"
      by (subst (asm) scan_fits.simps) simp
    then have n': "n + 6 < length fr"
      by (subst (asm) scan_fits.simps) (simp split: if_splits)
    let ?v = "atof (take 4 (drop (n + 2) fr) @ behind (i + 2))"
    from unat_u16_small [OF small] i
    have i': "unat (i + 2 + 3 + 1) = n + 6" and i2: "unat (i + 2) = n + 2"
      by (simp_all only:)
    from "1.IH"(4) [OF _ baro fits' i' len, of "h\<lparr>current_barometric_pressure := ?v\<rparr>"] n
    obtain h' where h': "\<forall>rest. length (fr @ rest) = UART_RX_BUF_SIZE \<longrightarrow>
        process_loop atof behind (h\<lparr>current_barometric_pressure := ?v, luminox_data := fr @ rest\<rparr>) (i + 2 + 3 + 1)
          = Inr (h'\<lparr>luminox_data := fr @ rest\<rparr>)"
      by auto
    have "process_loop atof behind (h\<lparr>luminox_data := fr @ rest\<rparr>) i = Inr (h'\<lparr>luminox_data := fr @ rest\<rparr>)"
      if r: "length (fr @ rest) = UART_RX_BUF_SIZE" for rest
    proof -
      from n' have "n + 2 + 4 \<le> length fr" by simp
      then have m: "memcpy_rd (fr @ rest) (n + 2) 4 = Some (take 4 (drop (n + 2) fr))"
        using r by (rule memcpy_rd_frame)
      have swap: "h\<lparr>luminox_data := fr @ rest, current_barometric_pressure := ?v\<rparr>
          = h\<lparr>current_barometric_pressure := ?v, luminox_data := fr @ rest\<rparr>"
        by (rule luminox_handler_t.equality) simp_all
      from h' r have "process_loop atof behind (h\<lparr>current_barometric_pressure := ?v, luminox_data := fr @ rest\<rparr>)
          (i + 2 + 3 + 1) = Inr (h'\<lparr>luminox_data := fr @ rest\<rparr>)"
        by blast
      then have "process_loop atof behind (h\<lparr>luminox_data := fr @ rest, current_barometric_pressure := ?v\<rparr>)
          (i + 2 + 3 + 1) = Inr (h'\<lparr>luminox_data := fr @ rest\<rparr>)"
        by (simp only: swap)
      with baro m show ?thesis
        by (subst process_loop.simps) (simp add: i i2 rd_frame [OF n r])
    qed
    then show ?thesis by blast
  next
    case other
    from fits n other have fits': "scan_fits fr (n + 1)"
      by (subst (asm) scan_fits.simps) simp
    from unat_u16_small [OF small] i have i': "unat (i + 1) = n + 1"
      by (simp only:)
    from "1.IH"(5) [OF _ other fits' i' len, of h] n
    obtain h' where h': "\<forall>rest. length (fr @ rest) = UART_RX_BUF_SIZE \<longrightarrow>
        process_loop atof behind (h\<lparr>luminox_data := fr @ rest\<rparr>) (i + 1)
          = Inr (h'\<lparr>luminox_data := fr @ rest\<rparr>)"
      by auto
    have "process_loop atof behind (h\<lparr>luminox_data := fr @ rest\<rparr>) i = Inr (h'\<lparr>luminox_data := fr @ rest\<rparr>)"
      if r: "length (fr @ rest) = UART_RX_BUF_SIZE" for rest
    proof -
      from h' r have "process_loop atof behind (h\<lparr>luminox_data := fr @ rest\<rparr>) (i + 1)
          = Inr (h'\<lparr>luminox_data := fr @ rest\<rparr>)"
        by blast
      with other show ?thesis
        by (subst process_loop.simps) (simp add: i rd_frame [OF n r])
    qed
    then show ?thesis by blast
  qed
qed

text \<open>
  C3, as the code has it. The decoder checks no offset against the end of the frame and
  has no result of its own for a frame that is too short. What holds is this: when
  every access of the scan falls inside the frame (\<open>scan_fits\<close>), the decode completes
  with Success, and it reads nothing behind the frame: the handler it returns is the
  same whatever bytes follow the frame in the 128-byte buffer.
\<close>

theorem decode_within_frame:
  assumes "scan_fits fr 0"
  shows "\<exists>h'. \<forall>rest. length (fr @ rest) = UART_RX_BUF_SIZE \<longrightarrow>
           luminox_process_response atof behind (h\<lparr>luminox_data := fr @ rest\<rparr>)
             = Inr (h'\<lparr>luminox_data := fr @ rest, err_code := LUMINOX_SUCCESS\<rparr>)"
proof (cases "length fr \<le> UART_RX_BUF_SIZE")
  case True
  have "unat (0 :: u16) = 0" by simp
  from process_loop_within_frame [OF assms this True, of atof behind h]
  obtain h' where "\<forall>rest. length (fr @ rest) = UART_RX_BUF_SIZE \<longrightarrow>
      process_loop atof behind (h\<lparr>luminox_data := fr @ rest\<rparr>) 0 = Inr (h'\<lparr>luminox_data := fr @ rest\<rparr>)"
    by blast
  then have "\<forall>rest. length (fr @ rest) = UART_RX_BUF_SIZE \<longrightarrow>
      luminox_process_response atof behind (h\<lparr>luminox_data := fr @ rest\<rparr>)
        = Inr (h'\<lparr>luminox_data := fr @ rest, err_code := LUMINOX_SUCCESS\<rparr>)"
    by (simp add: luminox_process_response_def)
  then show ?thesis ..
next
  case False
  then show ?thesis by simp
qed

text \<open>
  The mode echo \<open>"M 01\r\n"\<close>, followed in the buffer once by zero bytes and once by
  bytes \<open>0xFF\<close>: the same mode and measurements are decoded.
\<close>

theorem decode_within_frame_witness:
  "scan_fits [0x4D, 0x20, 0x30, 0x31, 0x0D, 0x0A] 0
   \<and> (\<exists>h'. luminox_process_response example_atof quiet_stack
          ((example_handler [])\<lparr>luminox_data :=
             [0x4D, 0x20, 0x30, 0x31, 0x0D, 0x0A] @ replicate 122 0\<rparr>)
        = Inr (h'\<lparr>luminox_data := [0x4D, 0x20, 0x30, 0x31, 0x0D, 0x0A] @ replicate 122 0,
                  err_code := LUMINOX_SUCCESS\<rparr>)
      \<and> luminox_process_response example_atof quiet_stack
          ((example_handler [])\<lparr>luminox_data :=
             [0x4D, 0x20, 0x30, 0x31, 0x0D, 0x0A] @ replicate 122 0xFF\<rparr>)
        = Inr (h'\<lparr>luminox_data := [0x4D, 0x20, 0x30, 0x31, 0x0D, 0x0A] @ replicate 122 0xFF,
                  err_code := LUMINOX_SUCCESS\<rparr>))"
proof -
  have fits: "scan_fits [0x4D, 0x20, 0x30, 0x31, 0x0D, 0x0A] 0"
    by (simp add: scan_fits.simps tag_defs)
  from decode_within_frame [OF fits, of example_atof quiet_stack "example_handler []"]
  obtain h' where h': "\<forall>rest. length ([0x4D, 0x20, 0x30, 0x31, 0x0D, 0x0A :: u8] @ rest)
        = UART_RX_BUF_SIZE \<longrightarrow>
      luminox_process_response example_atof quiet_stack
        ((example_handler [])\<lparr>luminox_data := [0x4D, 0x20, 0x30, 0x31, 0x0D, 0x0A] @ rest\<rparr>)
      = Inr (h'\<lparr>luminox_data := [0x4D, 0x20, 0x30, 0x31, 0x0D, 0x0A] @ rest,
                err_code := LUMINOX_SUCCESS\<rparr>)"
    by blast
  have "length ([0x4D, 0x20, 0x30, 0x31, 0x0D, 0x0A :: u8] @ replicate 122 0) = UART_RX_BUF_SIZE"
    "length ([0x4D, 0x20, 0x30, 0x31, 0x0D, 0x0A :: u8] @ replicate 122 0xFF) = UART_RX_BUF_SIZE"
    by (simp_all add: UART_RX_BUF_SIZE_def)
  with h' fits show ?thesis by blast
qed

text \<open>
  The claim as it is stated fails. The buffer holds the frame \<open>"M\n"\<close> and stale bytes
  behind it: the decoder reads the byte three positions after the tag, behind the line
  feed, sets the mode from it (\<open>0\<close> gives Streaming, \<open>1\<close> gives Polling) and ends with
  Success. The buffer holds the frame \<open>"O\n"\<close> and zero bytes: the scan resumes eight
  positions after the tag, behind the line feed, and runs over the end of the buffer.
\<close>

theorem decode_reads_past_frame_end:
  "luminox_process_response example_atof quiet_stack (example_handler [0x4D, 0x0A, 0x00, 0x30])
     = Inr ((example_handler [0x4D, 0x0A, 0x00, 0x30])
              \<lparr>current_mode := LUMINOX_MODE_STREAMING, err_code := LUMINOX_SUCCESS\<rparr>)
   \<and> luminox_process_response example_atof quiet_stack (example_handler [0x4D, 0x0A, 0x00, 0x31])
     = Inr ((example_handler [0x4D, 0x0A, 0x00, 0x31])
              \<lparr>current_mode := LUMINOX_MODE_POLLING, err_code := LUMINOX_SUCCESS\<rparr>)
   \<and> luminox_process_response example_atof quiet_stack (example_handler [0x4F, 0x0A]) = Inl OutOfBounds"
  by (simp add: luminox_process_response_def process_loop.simps rd_def memcpy_rd_def
      mode_echo_def example_defs tag_defs)

end
